theory Spec2Isabelle
  imports Main
begin

section \<open>The xrandr\_rotate module of py3status\<close>

text \<open>
  The module \<^verbatim>\<open>py3status/modules/xrandr_rotate.py\<close> is a class \<^verbatim>\<open>Py3status\<close> with
  eight configuration attributes, one mutable attribute \<^verbatim>\<open>displayed\<close> and two entry
  points called by the host: \<^verbatim>\<open>xrandr_rotate\<close> (the periodic render) and
  \<^verbatim>\<open>on_click\<close>. Everything else is done by shell commands handed to \<^verbatim>\<open>_call\<close>.

  The embedding keeps the methods and their names (without the leading underscore, and
  with \<^verbatim>\<open>_apply\<close> written \<open>apply_rotation\<close>, since \<^verbatim>\<open>apply\<close> is a proof command).
  Mutation of \<^verbatim>\<open>self.displayed\<close> is explicit state passing; every exception the Python
  can raise is a value of type \<open>error\<close>, returned together with the state reached when
  it was raised.
\<close>

subsection \<open>Errors\<close>

text \<open>
  \<open>IndexError\<close>: \<^verbatim>\<open>all_outputs[0]\<close> on an empty list. \<open>KeyError k\<close>: a dictionary or a
  format template asked for the missing key \<open>k\<close>. \<open>ValueError\<close>: a template with an
  unbalanced brace. \<open>NotModelled\<close> is not a Python exception: it marks a template that
  uses a part of the format mini-language this development does not describe.
\<close>

datatype error = IndexError | KeyError string | ValueError | NotModelled

subsection \<open>Configuration and state\<close>

text \<open>
  The class attributes, with the types their documentation gives them. \<^verbatim>\<open>screen\<close> is
  \<^verbatim>\<open>None\<close> or a name.
\<close>

record config =
  cache_timeout :: int
  format :: string
  hide_if_disconnected :: bool
  horizontal_icon :: string
  horizontal_rotation :: string
  screen :: "string option"
  vertical_icon :: string
  vertical_rotation :: string

definition default_config :: config where
  "default_config =
     \<lparr>cache_timeout = 10, format = ''{icon}'', hide_if_disconnected = False,
      horizontal_icon = ''H'', horizontal_rotation = ''normal'', screen = None,
      vertical_icon = ''V'', vertical_rotation = ''left''\<rparr>"

text \<open>
  The state is the attribute \<^verbatim>\<open>displayed\<close> together with the trace of the shell
  commands handed to \<^verbatim>\<open>_call\<close> so far, oldest first. The trace is what makes
  "issues one command per output" and "invokes nothing" statements about the model.
\<close>

record widget =
  displayed :: string
  issued :: "string list"

text \<open>\<^verbatim>\<open>__init__\<close>: \<^verbatim>\<open>self.displayed = ''\<close>; nothing has been issued yet.\<close>

definition init :: widget where
  "init = \<lparr>displayed = [], issued = []\<rparr>"

subsection \<open>The external tool\<close>

text \<open>
  \<^verbatim>\<open>_call(cmd)\<close> runs \<^verbatim>\<open>cmd\<close> in a shell and returns its decoded, stripped standard
  output. The shell is outside the program, so it is a parameter: a \<open>tool\<close> gives, for
  the number of commands issued before this one and the command text, the string that
  \<^verbatim>\<open>_call\<close> returns. A tool that ignores the number answers the same command the same way
  every time; one that uses it can describe any change of the displays between calls.
\<close>

type_synonym tool = "nat \<Rightarrow> string \<Rightarrow> string"

definition call :: "tool \<Rightarrow> string \<Rightarrow> widget \<Rightarrow> string \<times> widget" where
  "call t cmd w = (t (length (issued w)) cmd, w\<lparr>issued := issued w @ [cmd]\<rparr>)"

subsection \<open>Library functions of Python\<close>

text \<open>
  \<^verbatim>\<open>str.split()\<close> without argument: the maximal runs of non-whitespace characters.
  The output has been decoded, so whitespace is what Python's text strings take for
  it; among the characters up to \<open>0xFF\<close> these are tab, line feed, vertical tab, form
  feed, carriage return, the four separators \<open>0x1C\<close> to \<open>0x1F\<close>, space, next line
  (\<open>0x85\<close>) and no-break space (\<open>0xA0\<close>).
\<close>

definition is_space :: "char \<Rightarrow> bool" where
  "is_space c = (c = CHR 0x09 \<or> c = CHR 0x0A \<or> c = CHR 0x0B \<or> c = CHR 0x0C \<or>
                 c = CHR 0x0D \<or> c = CHR 0x1C \<or> c = CHR 0x1D \<or> c = CHR 0x1E \<or>
                 c = CHR 0x1F \<or> c = CHR 0x20 \<or> c = CHR 0x85 \<or> c = CHR 0xA0)"

fun split_from :: "string \<Rightarrow> string \<Rightarrow> string list" where
  "split_from cur [] = (if cur = [] then [] else [cur])"
| "split_from cur (c # cs) =
     (if is_space c then (if cur = [] then split_from [] cs else cur # split_from [] cs)
      else split_from (cur @ [c]) cs)"

definition py_split :: "string \<Rightarrow> string list" where
  "py_split s = split_from [] s"

text \<open>\<^verbatim>\<open>xs[0]\<close>: raises IndexError on the empty list.\<close>

definition first :: "string list \<Rightarrow> error + string" where
  "first xs = (case xs of [] \<Rightarrow> Inl IndexError | x # _ \<Rightarrow> Inr x)"

text \<open>
  \<^verbatim>\<open>template.format(**kw)\<close> with keyword arguments only. Described are: literal text,
  the escapes \<^verbatim>\<open>{{\<close> and \<^verbatim>\<open>}}\<close>, and replacement fields \<^verbatim>\<open>{name}\<close> whose name is made
  of letters, digits and underscores and does not start with a digit. A single
  \<^verbatim>\<open>}\<close> and a field that is never closed raise ValueError, a name that is not a keyword
  raises KeyError; the template is read from left to right and the first failure wins.
  Any other field (empty or numeric name, conversion, format specification, attribute
  or index) is answered \<open>NotModelled\<close>.
\<close>

definition is_name_char :: "char \<Rightarrow> bool" where
  "is_name_char c =
     (c \<in> set ''abcdefghijklmnopqrstuvwxyzABCDEFGHIJKLMNOPQRSTUVWXYZ0123456789_'')"

definition is_digit :: "char \<Rightarrow> bool" where
  "is_digit c = (c \<in> set ''0123456789'')"

definition lookup_field :: "(string \<times> string) list \<Rightarrow> string \<Rightarrow> error + string" where
  "lookup_field kw n =
     (if n \<noteq> [] \<and> list_all is_name_char n \<and> \<not> is_digit (hd n)
      then (case map_of kw n of None \<Rightarrow> Inl (KeyError n) | Some v \<Rightarrow> Inr v)
      else Inl NotModelled)"

definition emit :: "string \<Rightarrow> error + string \<Rightarrow> error + string" where
  "emit s r = (case r of Inl e \<Rightarrow> Inl e | Inr rest \<Rightarrow> Inr (s @ rest))"

text \<open>
  The second argument is \<open>None\<close> while literal text is read and \<open>Some n\<close> inside a
  replacement field, \<open>n\<close> being the part of the field read so far.
\<close>

fun format_from :: "(string \<times> string) list \<Rightarrow> string option \<Rightarrow> string \<Rightarrow> error + string" where
  "format_from kw None [] = Inr []"
| "format_from kw (Some n) [] = Inl ValueError"
| "format_from kw None (c # cs) =
     (if c = CHR ''{'' then
        (case cs of
           [] \<Rightarrow> Inl ValueError
         | d # ds \<Rightarrow> if d = CHR ''{'' then emit ''{'' (format_from kw None ds)
                     else format_from kw (Some []) cs)
      else if c = CHR ''}'' then
        (case cs of
           [] \<Rightarrow> Inl ValueError
         | d # ds \<Rightarrow> if d = CHR ''}'' then emit ''}'' (format_from kw None ds)
                     else Inl ValueError)
      else emit [c] (format_from kw None cs))"
| "format_from kw (Some n) (c # cs) =
     (if c = CHR ''}'' then
        (case lookup_field kw n of
           Inl e \<Rightarrow> Inl e
         | Inr v \<Rightarrow> emit v (format_from kw None cs))
      else format_from kw (Some (n @ [c])) cs)"

definition py_format :: "string \<Rightarrow> (string \<times> string) list \<Rightarrow> error + string" where
  "py_format template kw = format_from kw None template"

subsection \<open>The methods\<close>

text \<open>\<^verbatim>\<open>_get_all_outputs\<close>: the names of the connected, active outputs.\<close>

definition list_cmd :: string where
  \<open>list_cmd = ''xrandr -q | grep " connected [^(]" | cut -d " " -f1''\<close>

definition get_all_outputs :: "tool \<Rightarrow> widget \<Rightarrow> string list \<times> widget" where
  "get_all_outputs t w = (case call t list_cmd w of (out, w') \<Rightarrow> (py_split out, w'))"

text \<open>
  \<^verbatim>\<open>self.screen or all_outputs[0]\<close>: the configured screen when it is truthy (neither
  \<^verbatim>\<open>None\<close> nor the empty string), else the first enumerated output, which raises on
  an empty list.
\<close>

definition screen_or_first :: "config \<Rightarrow> string list \<Rightarrow> error + string" where
  "screen_or_first cfg all_outputs =
     (case screen cfg of
        None \<Rightarrow> first all_outputs
      | Some s \<Rightarrow> if s \<noteq> [] then Inr s else first all_outputs)"

definition rotation_cmd :: "string \<Rightarrow> string" where
  \<open>rotation_cmd output = ''xrandr -q | grep "^'' @ output @ ''" | cut -d " " -f4''\<close>

text \<open>
  The local \<^verbatim>\<open>is_horizontal\<close> of \<^verbatim>\<open>_get_current_rotation_icon\<close>:
  \<^verbatim>\<open>output.startswith('(') or output in ['normal', 'inverted']\<close>.
\<close>

definition is_horizontal :: "string \<Rightarrow> bool" where
  "is_horizontal d = (take 1 d = ''('' \<or> d = ''normal'' \<or> d = ''inverted'')"

definition get_current_rotation_icon ::
  "config \<Rightarrow> tool \<Rightarrow> string list \<Rightarrow> widget \<Rightarrow> (error + string) \<times> widget" where
  "get_current_rotation_icon cfg t all_outputs w =
     (case screen_or_first cfg all_outputs of
        Inl e \<Rightarrow> (Inl e, w)
      | Inr output \<Rightarrow>
          (case call t (rotation_cmd output) w of
             (d, w') \<Rightarrow>
               (Inr (if is_horizontal d then horizontal_icon cfg else vertical_icon cfg), w')))"

text \<open>\<^verbatim>\<open>_apply\<close>: one \<^verbatim>\<open>xrandr --output ... --rotate ...\<close> per target, in order.\<close>

definition rotate_cmd :: "string \<Rightarrow> string \<Rightarrow> string" where
  "rotate_cmd rotation output = ''xrandr --output '' @ output @ '' --rotate '' @ rotation"

definition apply_rotation :: "config \<Rightarrow> tool \<Rightarrow> widget \<Rightarrow> widget" where
  "apply_rotation cfg t w =
     (let rotation = (if displayed w = horizontal_icon cfg then horizontal_rotation cfg
                      else vertical_rotation cfg)
      in case (case screen cfg of
                 None \<Rightarrow> get_all_outputs t w
               | Some s \<Rightarrow> if s \<noteq> [] then ([s], w) else get_all_outputs t w) of
           (outputs, w') \<Rightarrow>
             foldl (\<lambda>v output. snd (call t (rotate_cmd rotation output) v)) w' outputs)"

definition switch_selection :: "config \<Rightarrow> widget \<Rightarrow> widget" where
  "switch_selection cfg w =
     w\<lparr>displayed := (if displayed w = horizontal_icon cfg then vertical_icon cfg
                      else horizontal_icon cfg)\<rparr>"

text \<open>
  \<^verbatim>\<open>on_click\<close>: the event is a dictionary; \<^verbatim>\<open>event['button']\<close> raises KeyError when
  the key is missing. The two list arguments of the host are not used by the method
  and are left out.
\<close>

definition on_click :: "config \<Rightarrow> tool \<Rightarrow> (string \<rightharpoonup> int) \<Rightarrow> widget \<Rightarrow> (error + unit) \<times> widget" where
  "on_click cfg t event w =
     (case event ''button'' of
        None \<Rightarrow> (Inl (KeyError ''button''), w)
      | Some button \<Rightarrow>
          if button = 1 \<or> button = 4 \<or> button = 5 then (Inr (), switch_selection cfg w)
          else if button = 3 then (Inr (), apply_rotation cfg t w)
          else (Inr (), w))"

text \<open>
  \<^verbatim>\<open>xrandr_rotate\<close>, the render call, in the three stages of its body.
  \<open>selected_screen_disconnected\<close> is the local of that name.
\<close>

definition selected_screen_disconnected :: "config \<Rightarrow> string list \<Rightarrow> bool" where
  "selected_screen_disconnected cfg all_outputs =
     (case screen cfg of None \<Rightarrow> False | Some s \<Rightarrow> s \<notin> set all_outputs)"

text \<open>
  The \<^verbatim>\<open>{screen}\<close> label:
  \<^verbatim>\<open>screen = self.screen or all_outputs[0] if len(all_outputs) == 1 else 'ALL'\<close>.
  Python reads this as \<^verbatim>\<open>(self.screen or all_outputs[0]) if ... else 'ALL'\<close>: the
  conditional expression binds weaker than \<^verbatim>\<open>or\<close>.
\<close>

definition screen_label :: "config \<Rightarrow> string list \<Rightarrow> error + string" where
  "screen_label cfg all_outputs =
     (if length all_outputs = 1 then screen_or_first cfg all_outputs else Inr ''ALL'')"

text \<open>
  The first \<^verbatim>\<open>if\<close>/\<^verbatim>\<open>else\<close> of the body: the new \<^verbatim>\<open>displayed\<close> and \<^verbatim>\<open>full_text\<close>.
\<close>

definition render_text ::
  "config \<Rightarrow> tool \<Rightarrow> string list \<Rightarrow> widget \<Rightarrow> (error + string) \<times> widget" where
  "render_text cfg t all_outputs w =
     (if selected_screen_disconnected cfg all_outputs \<and> hide_if_disconnected cfg
      then (Inr [], w\<lparr>displayed := []\<rparr>)
      else
        (case (if displayed w = []
               then (case get_current_rotation_icon cfg t all_outputs w of
                       (Inl e, w') \<Rightarrow> (Inl e, w')
                     | (Inr icon, w') \<Rightarrow> (Inr (), w'\<lparr>displayed := icon\<rparr>))
               else (Inr (), w)) of
           (Inl e, w1) \<Rightarrow> (Inl e, w1)
         | (Inr _, w1) \<Rightarrow>
             (case screen_label cfg all_outputs of
                Inl e \<Rightarrow> (Inl e, w1)
              | Inr label \<Rightarrow>
                  (py_format (format cfg)
                     [(''icon'', if displayed w1 = [] then ''?'' else displayed w1),
                      (''screen'', label)], w1))))"

text \<open>The coloration: the \<^verbatim>\<open>if\<close>/\<^verbatim>\<open>elif\<close> after the response is built.\<close>

definition render_color ::
  "config \<Rightarrow> tool \<Rightarrow> (string \<rightharpoonup> string) \<Rightarrow> string list \<Rightarrow> widget
     \<Rightarrow> (error + string option) \<times> widget" where
  "render_color cfg t i3s_config all_outputs w =
     (if selected_screen_disconnected cfg all_outputs \<and> \<not> hide_if_disconnected cfg
      then (case i3s_config ''color_degraded'' of
              None \<Rightarrow> (Inl (KeyError ''color_degraded''), w)
            | Some c \<Rightarrow> (Inr (Some c), w))
      else
        (case get_current_rotation_icon cfg t all_outputs w of
           (Inl e, w') \<Rightarrow> (Inl e, w')
         | (Inr icon, w') \<Rightarrow>
             if displayed w' = icon
             then (case i3s_config ''color_good'' of
                     None \<Rightarrow> (Inl (KeyError ''color_good''), w')
                   | Some c \<Rightarrow> (Inr (Some c), w'))
             else (Inr None, w')))"

text \<open>
  The response dictionary: \<^verbatim>\<open>full_text\<close> and the optional \<^verbatim>\<open>color\<close>. Its third
  entry \<^verbatim>\<open>cached_until\<close> is the wall clock plus \<^verbatim>\<open>cache_timeout\<close>, a floating-point
  time stamp that no statement below is about; it is not part of the record.
\<close>

record response =
  full_text :: string
  color :: "string option"

definition xrandr_rotate ::
  "config \<Rightarrow> tool \<Rightarrow> (string \<rightharpoonup> string) \<Rightarrow> widget \<Rightarrow> (error + response) \<times> widget" where
  "xrandr_rotate cfg t i3s_config w =
     (case get_all_outputs t w of
        (all_outputs, w0) \<Rightarrow>
          (case render_text cfg t all_outputs w0 of
             (Inl e, w1) \<Rightarrow> (Inl e, w1)
           | (Inr text, w1) \<Rightarrow>
               (case render_color cfg t i3s_config all_outputs w1 of
                  (Inl e, w2) \<Rightarrow> (Inl e, w2)
                | (Inr col, w2) \<Rightarrow> (Inr \<lparr>full_text = text, color = col\<rparr>, w2))))"

subsection \<open>Sequences of host calls\<close>

text \<open>
  The host calls the two entry points in any order, each time against whatever the
  external tool answers then. An exception goes to the host and the object lives on,
  so the state after a failed call is the state in which it failed.
\<close>

datatype invocation =
  Click tool "string \<rightharpoonup> int"
| Render tool "string \<rightharpoonup> string"

fun step :: "config \<Rightarrow> widget \<Rightarrow> invocation \<Rightarrow> widget" where
  "step cfg w (Click t event) = snd (on_click cfg t event w)"
| "step cfg w (Render t i3s_config) = snd (xrandr_rotate cfg t i3s_config w)"

definition run :: "config \<Rightarrow> invocation list \<Rightarrow> widget" where
  "run cfg calls = foldl (step cfg) init calls"

subsection \<open>Concrete hosts and displays\<close>

text \<open>The colour table of the module's own test driver.\<close>

definition host_colors :: "string \<rightharpoonup> string" where
  "host_colors =
     [''color_bad'' \<mapsto> ''#FF0000'', ''color_degraded'' \<mapsto> ''#FFFF00'',
      ''color_good'' \<mapsto> ''#00FF00'']"

text \<open>A tool that answers every command the same way whenever it is asked.\<close>

definition steady :: "(string \<Rightarrow> string) \<Rightarrow> tool" where
  "steady f n cmd = f cmd"

text \<open>
  One connected output \<^verbatim>\<open>eDP1\<close> in normal rotation, as a function of the command
  alone.
\<close>

definition edp1_normal :: "string \<Rightarrow> string" where
  "edp1_normal cmd = (if cmd = list_cmd then ''eDP1'' else ''normal'')"

text \<open>No output is connected: every command prints nothing.\<close>

definition no_outputs :: tool where
  "no_outputs n cmd = []"

text \<open>
  One connected output \<^verbatim>\<open>eDP1\<close>; the rotation queries print nothing (no line of the
  listing matches, or the fourth field is missing).
\<close>

definition only_edp1 :: tool where
  "only_edp1 n cmd = (if cmd = list_cmd then ''eDP1'' else [])"

text \<open>
  One connected output \<^verbatim>\<open>eDP1\<close>; the rotation queries print \<^verbatim>\<open>left\<close>, the fourth
  field of the line the listing has for an output that is not connected.
\<close>

definition edp1_others_unplugged :: tool where
  "edp1_others_unplugged n cmd = (if cmd = list_cmd then ''eDP1'' else ''left'')"

text \<open>Two connected outputs, one name per line, both in normal rotation.\<close>

definition edp1_and_vga1 :: tool where
  "edp1_and_vga1 n cmd =
     (if cmd = list_cmd then ''eDP1'' @ [CHR 0x0A] @ ''VGA1'' else ''normal'')"

text \<open>Two connected outputs; the rotation queries print \<^verbatim>\<open>(normal\<close>.\<close>

definition edp1_and_hdmi1 :: tool where
  "edp1_and_hdmi1 n cmd =
     (if cmd = list_cmd then ''eDP1 HDMI1'' else ''(normal'')"

text \<open>The default configuration with \<^verbatim>\<open>screen = 'VGA1'\<close> and both placeholders shown.\<close>

definition vga1_config :: config where
  "vga1_config = default_config\<lparr>format := ''{icon} {screen}'', screen := Some ''VGA1''\<rparr>"

text \<open>The default configuration with an empty horizontal icon.\<close>

definition blank_horizontal_config :: config where
  "blank_horizontal_config = default_config\<lparr>horizontal_icon := []\<rparr>"

text \<open>The default configuration with \<^verbatim>\<open>screen\<close> set to the empty string.\<close>

definition blank_screen_config :: config where
  "blank_screen_config = default_config\<lparr>screen := Some []\<rparr>"

text \<open>The invariant of \<^verbatim>\<open>displayed\<close>, as a predicate on states.\<close>

definition inv_displayed :: "config \<Rightarrow> widget \<Rightarrow> bool" where
  "inv_displayed cfg w =
     (displayed w = [] \<or> displayed w = horizontal_icon cfg \<or> displayed w = vertical_icon cfg)"

section \<open>Properties\<close>

subsection \<open>Auxiliary facts\<close>

lemma get_all_outputs_eq:
  "get_all_outputs t w =
     (py_split (t (length (issued w)) list_cmd), w\<lparr>issued := issued w @ [list_cmd]\<rparr>)"
  by (simp add: get_all_outputs_def call_def)

lemma displayed_get_all_outputs: "displayed (snd (get_all_outputs t w)) = displayed w"
  by (simp add: get_all_outputs_eq)

lemma fst_get_all_outputs_steady: "fst (get_all_outputs (steady f) w) = py_split (f list_cmd)"
  by (simp add: get_all_outputs_eq steady_def)

lemma icon_eq:
  "get_current_rotation_icon cfg t outs w =
     (case screen_or_first cfg outs of
        Inl e \<Rightarrow> (Inl e, w)
      | Inr output \<Rightarrow>
          (Inr (if is_horizontal (t (length (issued w)) (rotation_cmd output))
                then horizontal_icon cfg else vertical_icon cfg),
           w\<lparr>issued := issued w @ [rotation_cmd output]\<rparr>))"
  by (simp add: get_current_rotation_icon_def call_def split: sum.splits)

lemma icon_steady:
  "get_current_rotation_icon cfg (steady f) outs w =
     (case screen_or_first cfg outs of
        Inl e \<Rightarrow> (Inl e, w)
      | Inr output \<Rightarrow>
          (Inr (if is_horizontal (f (rotation_cmd output)) then horizontal_icon cfg
                else vertical_icon cfg),
           w\<lparr>issued := issued w @ [rotation_cmd output]\<rparr>))"
  by (simp add: icon_eq steady_def split: sum.splits)

lemma icon_result:
  "get_current_rotation_icon cfg t outs w = (r, w') \<Longrightarrow>
     displayed w' = displayed w \<and>
     (r = Inl IndexError \<or> r = Inr (horizontal_icon cfg) \<or> r = Inr (vertical_icon cfg))"
  by (auto simp: icon_eq screen_or_first_def first_def
           split: sum.splits option.splits list.splits if_splits)

lemma issue_all:
  "foldl (\<lambda>v output. snd (call t (c output) v)) w outs = w\<lparr>issued := issued w @ map c outs\<rparr>"
  by (induction outs arbitrary: w) (simp_all add: call_def)

lemma apply_rotation_screen:
  "screen cfg = Some s \<Longrightarrow> s \<noteq> [] \<Longrightarrow>
     apply_rotation cfg t w =
       w\<lparr>issued := issued w @
           [rotate_cmd (if displayed w = horizontal_icon cfg then horizontal_rotation cfg
                        else vertical_rotation cfg) s]\<rparr>"
  by (simp add: apply_rotation_def Let_def issue_all)

lemma apply_rotation_all:
  "screen cfg = None \<or> screen cfg = Some [] \<Longrightarrow>
     apply_rotation cfg t w =
       w\<lparr>issued := issued w @ list_cmd #
           map (rotate_cmd (if displayed w = horizontal_icon cfg then horizontal_rotation cfg
                            else vertical_rotation cfg))
               (py_split (t (length (issued w)) list_cmd))\<rparr>"
  by (auto simp: apply_rotation_def Let_def issue_all get_all_outputs_eq)

lemma apply_rotation_displayed: "displayed (apply_rotation cfg t w) = displayed w"
proof (cases "screen cfg = None \<or> screen cfg = Some []")
  case True
  then show ?thesis by (simp add: apply_rotation_all)
next
  case False
  then obtain s where "screen cfg = Some s" "s \<noteq> []" by auto
  then show ?thesis by (simp add: apply_rotation_screen)
qed

lemma on_click_switch:
  "event ''button'' = Some b \<Longrightarrow> b = 1 \<or> b = 4 \<or> b = 5 \<Longrightarrow>
     on_click cfg t event w = (Inr (), switch_selection cfg w)"
  by (auto simp: on_click_def)

lemma on_click_inv: "inv_displayed cfg w \<Longrightarrow> inv_displayed cfg (snd (on_click cfg t event w))"
  by (auto simp: on_click_def inv_displayed_def switch_selection_def apply_rotation_displayed
           split: option.splits)

lemma render_text_inv:
  assumes "inv_displayed cfg w" and "render_text cfg t outs w = (r, w')"
  shows "inv_displayed cfg w'"
proof (cases "selected_screen_disconnected cfg outs \<and> hide_if_disconnected cfg")
  case True
  with assms show ?thesis by (auto simp: render_text_def inv_displayed_def)
next
  case False
  show ?thesis
  proof (cases "displayed w = []")
    case nonempty: False
    with False assms show ?thesis
      by (auto simp: render_text_def split: sum.splits)
  next
    case empty: True
    obtain i v where g: "get_current_rotation_icon cfg t outs w = (i, v)"
      by (cases "get_current_rotation_icon cfg t outs w")
    from icon_result [OF g] False empty assms g show ?thesis
      by (auto simp: render_text_def inv_displayed_def split: sum.splits)
  qed
qed

lemma render_color_displayed:
  "render_color cfg t i3s outs w = (r, w') \<Longrightarrow> displayed w' = displayed w"
  by (cases "get_current_rotation_icon cfg t outs w")
     (auto simp: render_color_def split: if_splits option.splits sum.splits dest: icon_result)

lemma xrandr_rotate_fst:
  "fst (xrandr_rotate cfg t i3s w) =
     (case fst (render_text cfg t (fst (get_all_outputs t w)) (snd (get_all_outputs t w))) of
        Inl e \<Rightarrow> Inl e
      | Inr text \<Rightarrow>
          (case fst (render_color cfg t i3s (fst (get_all_outputs t w))
                      (snd (render_text cfg t (fst (get_all_outputs t w))
                              (snd (get_all_outputs t w))))) of
             Inl e \<Rightarrow> Inl e
           | Inr col \<Rightarrow> Inr \<lparr>full_text = text, color = col\<rparr>))"
  by (simp add: xrandr_rotate_def split: prod.splits sum.splits)

lemma xrandr_rotate_displayed:
  "displayed (snd (xrandr_rotate cfg t i3s w)) =
     displayed (snd (render_text cfg t (fst (get_all_outputs t w)) (snd (get_all_outputs t w))))"
proof -
  obtain outs wa where a: "get_all_outputs t w = (outs, wa)"
    by (cases "get_all_outputs t w")
  obtain r wb where b: "render_text cfg t outs wa = (r, wb)"
    by (cases "render_text cfg t outs wa")
  obtain c wc where d: "render_color cfg t i3s outs wb = (c, wc)"
    by (cases "render_color cfg t i3s outs wb")
  from d have "displayed wc = displayed wb" by (rule render_color_displayed)
  with a b d show ?thesis
    by (simp add: xrandr_rotate_def split: sum.splits)
qed

lemma xrandr_rotate_inv:
  assumes "inv_displayed cfg w"
  shows "inv_displayed cfg (snd (xrandr_rotate cfg t i3s w))"
proof -
  let ?g = "get_all_outputs t w"
  from assms have "inv_displayed cfg (snd ?g)"
    by (simp add: inv_displayed_def displayed_get_all_outputs)
  then have "inv_displayed cfg (snd (render_text cfg t (fst ?g) (snd ?g)))"
    by (rule render_text_inv [where r = "fst (render_text cfg t (fst ?g) (snd ?g))"
          and t = t and outs = "fst ?g"]) simp
  then show ?thesis
    by (simp add: inv_displayed_def xrandr_rotate_displayed)
qed

lemma step_inv: "inv_displayed cfg w \<Longrightarrow> inv_displayed cfg (step cfg w c)"
  by (cases c) (simp_all add: on_click_inv xrandr_rotate_inv)

lemma foldl_step_inv: "inv_displayed cfg w \<Longrightarrow> inv_displayed cfg (foldl (step cfg) w cs)"
  by (induction cs arbitrary: w) (simp_all add: step_inv)

lemma render_text_steady:
  assumes "displayed v = displayed w"
  shows "fst (render_text cfg (steady f) outs v) = fst (render_text cfg (steady f) outs w) \<and>
         displayed (snd (render_text cfg (steady f) outs v)) =
         displayed (snd (render_text cfg (steady f) outs w))"
  using assms by (simp add: render_text_def icon_steady split: sum.splits)

lemma render_text_again:
  "fst (render_text cfg (steady f) outs (snd (render_text cfg (steady f) outs w))) =
     fst (render_text cfg (steady f) outs w) \<and>
   displayed (snd (render_text cfg (steady f) outs (snd (render_text cfg (steady f) outs w)))) =
     displayed (snd (render_text cfg (steady f) outs w))"
  by (simp add: render_text_def icon_steady split: sum.splits)

lemma render_color_steady:
  assumes "displayed v = displayed w"
  shows "fst (render_color cfg (steady f) i3s outs v) = fst (render_color cfg (steady f) i3s outs w)"
  using assms by (simp add: render_color_def icon_steady split: sum.splits option.splits)

subsection \<open>The screen label of the render call\<close>

text \<open>
  C1. The claim: outside the hidden branch the \<^verbatim>\<open>{screen}\<close> label is the configured
  screen name whenever a screen is configured, whatever the number of enumerated
  outputs; else the only output's name; else \<^verbatim>\<open>ALL\<close>. The module's documentation
  says the same (\<^verbatim>\<open>{screen}\<close> is "specified by `screen` option or detected
  automatically if only one screen is connected, otherwise 'ALL'"). The code computes
  \<^verbatim>\<open>(self.screen or all_outputs[0]) if len(all_outputs) == 1 else 'ALL'\<close>: with screen
  \<^verbatim>\<open>VGA1\<close> configured and connected, and the outputs \<^verbatim>\<open>eDP1\<close> and \<^verbatim>\<open>VGA1\<close>
  enumerated, the label is \<^verbatim>\<open>ALL\<close> and the rendered text is \<^verbatim>\<open>H ALL\<close>, not
  \<^verbatim>\<open>H VGA1\<close>.
\<close>

theorem screen_label_configured_two_outputs:
  "screen_label (vga1_config) (fst (get_all_outputs edp1_and_vga1 init)) = Inr ''ALL'' \<and>
   fst (get_all_outputs edp1_and_vga1 init) = [''eDP1'', ''VGA1''] \<and>
   fst (xrandr_rotate vga1_config edp1_and_vga1 host_colors init) =
     Inr \<lparr>full_text = ''H ALL'', color = Some ''#00FF00''\<rparr>"
  by code_simp

subsection \<open>Rendering without outputs\<close>

text \<open>
  C3. The claim: the render call never raises; with no output enumerated, no screen
  configured and \<^verbatim>\<open>displayed\<close> empty it still returns a response. The code, at that
  very input, evaluates \<^verbatim>\<open>self.screen or all_outputs[0]\<close> in
  \<^verbatim>\<open>_get_current_rotation_icon\<close> on the empty list: the call ends in IndexError and
  no response is built.
\<close>

theorem render_no_outputs_raises:
  "fst (get_all_outputs no_outputs init) = [] \<and>
   fst (xrandr_rotate default_config no_outputs host_colors init) = Inl IndexError"
  by code_simp

subsection \<open>Classifying the rotation descriptor\<close>

text \<open>
  C4, as claimed, fails: for the empty descriptor the claim promises the horizontal
  icon. With the default configuration, one output \<^verbatim>\<open>eDP1\<close> and a tool that prints
  nothing for the rotation query, the method returns the vertical icon \<^verbatim>\<open>V\<close>.
\<close>

theorem rotation_icon_empty_descriptor_counterexample:
  "no_outputs (length (issued init)) (rotation_cmd ''eDP1'') = [] \<and>
   fst (get_current_rotation_icon default_config no_outputs [''eDP1''] init) = Inr ''V'' \<and>
   fst (get_current_rotation_icon default_config no_outputs [''eDP1''] init)
     \<noteq> Inr (horizontal_icon default_config)"
  by code_simp

text \<open>
  C4, amended: whenever there is an output to inspect (the configured screen, or else
  the first enumerated one), \<^verbatim>\<open>_get_current_rotation_icon\<close> returns the horizontal
  icon exactly for the descriptors \<^verbatim>\<open>normal\<close>, \<^verbatim>\<open>inverted\<close> and those starting with
  \<^verbatim>\<open>(\<close>, and the vertical icon for every other descriptor, the empty one included.
\<close>

theorem rotation_icon_classification:
  assumes "screen_or_first cfg all_outputs = Inr output"
  shows "fst (get_current_rotation_icon cfg t all_outputs w) =
           Inr (if t (length (issued w)) (rotation_cmd output) = ''normal'' \<or>
                   t (length (issued w)) (rotation_cmd output) = ''inverted'' \<or>
                   (\<exists>rest. t (length (issued w)) (rotation_cmd output) = CHR ''('' # rest)
                then horizontal_icon cfg else vertical_icon cfg) \<and>
         (t (length (issued w)) (rotation_cmd output) = [] \<longrightarrow>
            fst (get_current_rotation_icon cfg t all_outputs w) = Inr (vertical_icon cfg))"
proof -
  let ?d = "t (length (issued w)) (rotation_cmd output)"
  have "is_horizontal ?d \<longleftrightarrow> ?d = ''normal'' \<or> ?d = ''inverted'' \<or> (\<exists>rest. ?d = CHR ''('' # rest)"
    by (cases ?d) (auto simp: is_horizontal_def)
  moreover have "?d = [] \<Longrightarrow> \<not> is_horizontal ?d"
    by (simp add: is_horizontal_def)
  ultimately show ?thesis using assms by (auto simp: icon_eq)
qed

theorem rotation_icon_classification_witness:
  "screen_or_first default_config [''eDP1''] = Inr ''eDP1'' \<and>
   no_outputs (length (issued init)) (rotation_cmd ''eDP1'') = [] \<and>
   fst (get_current_rotation_icon default_config no_outputs [''eDP1''] init) = Inr ''V''"
proof -
  have h: "screen_or_first default_config [''eDP1''] = Inr ''eDP1''"
    by code_simp
  have d: "no_outputs (length (issued init)) (rotation_cmd ''eDP1'') = []"
    by (simp add: no_outputs_def)
  have v: "vertical_icon default_config = ''V''"
    by (simp add: default_config_def)
  from rotation_icon_classification [OF h, of no_outputs init] d v h show ?thesis
    by simp
qed

subsection \<open>Clicks\<close>

text \<open>
  C5. For a button in \<open>{1, 4, 5}\<close> and any state, \<^verbatim>\<open>on_click\<close> changes nothing but
  \<^verbatim>\<open>displayed\<close>, which becomes the vertical icon if it was the horizontal icon and the
  horizontal icon otherwise; so it is one of the two configured icons.
\<close>

theorem on_click_toggle:
  assumes "event ''button'' = Some b" and "b \<in> {1, 4, 5}"
  shows "on_click cfg t event w =
           (Inr (), w\<lparr>displayed := (if displayed w = horizontal_icon cfg then vertical_icon cfg
                                       else horizontal_icon cfg)\<rparr>) \<and>
         displayed (snd (on_click cfg t event w)) \<in> {horizontal_icon cfg, vertical_icon cfg}"
  using assms by (auto simp: on_click_switch switch_selection_def)

theorem on_click_toggle_witness:
  "[''button'' \<mapsto> (4::int)] ''button'' = Some 4 \<and> (4::int) \<in> {1, 4, 5} \<and>
   on_click default_config no_outputs [''button'' \<mapsto> 4] (init\<lparr>displayed := ''H''\<rparr>) =
     (Inr (), init\<lparr>displayed := ''V''\<rparr>)"
proof -
  have h: "[''button'' \<mapsto> (4::int)] ''button'' = Some 4" by simp
  have m: "(4::int) \<in> {1, 4, 5}" by simp
  from on_click_toggle [where event = "[''button'' \<mapsto> 4]" and b = 4 and cfg = default_config
      and t = no_outputs and w = "init\<lparr>displayed := ''H''\<rparr>", OF h m] h m
  show ?thesis by (simp add: default_config_def)
qed

text \<open>
  C9. For a button outside \<open>{1, 3, 4, 5}\<close>, \<^verbatim>\<open>on_click\<close> returns the state it was
  given: \<^verbatim>\<open>displayed\<close> is kept and no command is issued.
\<close>

theorem on_click_other_button:
  assumes "event ''button'' = Some b" and "b \<notin> {1, 3, 4, 5}"
  shows "on_click cfg t event w = (Inr (), w)"
  using assms by (simp add: on_click_def)

theorem on_click_other_button_witness:
  "[''button'' \<mapsto> (2::int)] ''button'' = Some 2 \<and> (2::int) \<notin> {1, 3, 4, 5} \<and>
   on_click default_config edp1_and_vga1 [''button'' \<mapsto> 2] init = (Inr (), init)"
proof -
  have h: "[''button'' \<mapsto> (2::int)] ''button'' = Some 2" by simp
  have m: "(2::int) \<notin> {1, 3, 4, 5}" by simp
  from on_click_other_button [where event = "[''button'' \<mapsto> 2]" and b = 2 and cfg = default_config
      and t = edp1_and_vga1 and w = init, OF h m] h m
  show ?thesis by simp
qed

text \<open>
  C10, as claimed, fails: from the empty \<^verbatim>\<open>displayed\<close> a toggle click is claimed to
  give the horizontal icon always. \<^verbatim>\<open>_switch_selection\<close> compares \<^verbatim>\<open>displayed\<close> with
  the horizontal icon; when that icon is configured as the empty string the
  comparison succeeds on the empty \<^verbatim>\<open>displayed\<close> and the click selects the vertical
  icon.
\<close>

theorem first_toggle_counterexample:
  "displayed init = [] \<and>
   displayed (snd (on_click blank_horizontal_config no_outputs [''button'' \<mapsto> 1] init)) = ''V'' \<and>
   displayed (snd (on_click blank_horizontal_config no_outputs [''button'' \<mapsto> 1] init))
     \<noteq> horizontal_icon blank_horizontal_config \<and>
   displayed (snd (on_click blank_horizontal_config no_outputs [''button'' \<mapsto> 1] init))
     = vertical_icon blank_horizontal_config"
  by (simp add: on_click_def switch_selection_def blank_horizontal_config_def default_config_def
        init_def)

text \<open>
  C10, amended: when \<^verbatim>\<open>displayed\<close> is empty and the configured horizontal icon is not
  the empty string (the default is \<^verbatim>\<open>H\<close>), a click with button 1, 4 or 5 sets
  \<^verbatim>\<open>displayed\<close> to the horizontal icon, whatever the tool reports.
\<close>

theorem first_toggle_horizontal:
  assumes "displayed w = []" and "horizontal_icon cfg \<noteq> []"
    and "event ''button'' = Some b" and "b \<in> {1, 4, 5}"
  shows "displayed (snd (on_click cfg t event w)) = horizontal_icon cfg"
  using assms by (auto simp: on_click_switch switch_selection_def)

theorem first_toggle_horizontal_witness:
  "displayed init = [] \<and> horizontal_icon default_config \<noteq> [] \<and>
   [''button'' \<mapsto> (5::int)] ''button'' = Some 5 \<and> (5::int) \<in> {1, 4, 5} \<and>
   displayed (snd (on_click default_config edp1_and_hdmi1 [''button'' \<mapsto> 5] init)) = ''H''"
proof -
  have a: "displayed init = []" by (simp add: init_def)
  have b: "horizontal_icon default_config \<noteq> []" by (simp add: default_config_def)
  have c: "[''button'' \<mapsto> (5::int)] ''button'' = Some 5" by simp
  have d: "(5::int) \<in> {1, 4, 5}" by simp
  from first_toggle_horizontal [where event = "[''button'' \<mapsto> 5]" and b = 5 and cfg = default_config
      and t = edp1_and_hdmi1 and w = init, OF a b c d] a b c d
  show ?thesis by (simp add: default_config_def)
qed

text \<open>
  C8, as claimed, fails in two places. The claim has the vertical keyword chosen
  whenever \<^verbatim>\<open>displayed\<close> is empty; \<^verbatim>\<open>_apply\<close> compares \<^verbatim>\<open>displayed\<close> with the
  horizontal icon, so with that icon configured as the empty string an empty
  \<^verbatim>\<open>displayed\<close> selects the horizontal keyword \<^verbatim>\<open>normal\<close>. The claim has the
  configured screen as the only target whenever it is set; \<^verbatim>\<open>_apply\<close> tests
  \<^verbatim>\<open>if self.screen\<close>, so a screen set to the empty string is passed over and every
  enumerated output is rotated.
\<close>

theorem on_click_apply_counterexample:
  "displayed init = [] \<and>
   vertical_rotation blank_horizontal_config = ''left'' \<and>
   on_click blank_horizontal_config edp1_and_hdmi1 [''button'' \<mapsto> 3] init =
     (Inr (), \<lparr>displayed = [], issued = [list_cmd, ''xrandr --output eDP1 --rotate normal'',
                                           ''xrandr --output HDMI1 --rotate normal'']\<rparr>) \<and>
   screen blank_screen_config = Some [] \<and>
   on_click blank_screen_config edp1_and_hdmi1 [''button'' \<mapsto> 3] init =
     (Inr (), \<lparr>displayed = [], issued = [list_cmd, ''xrandr --output eDP1 --rotate left'',
                                           ''xrandr --output HDMI1 --rotate left'']\<rparr>)"
  by code_simp

text \<open>
  C8, amended: a click with button 3 runs \<^verbatim>\<open>_apply\<close>, which changes nothing but the
  commands issued. The rotation keyword \<open>k\<close> is the horizontal one when \<^verbatim>\<open>displayed\<close>
  equals the horizontal icon and the vertical one in every other case; an empty
  \<^verbatim>\<open>displayed\<close> is such an other case when the horizontal icon is not the empty
  string, and selects the horizontal keyword when it is. With a screen configured as
  a non-empty name exactly one rotation command is issued, for that screen, and
  nothing is enumerated. With no screen, or the empty string, configured, the outputs
  are enumerated afresh (the listing command is issued first) and exactly one
  rotation command is issued for each of them, in order.
\<close>

theorem on_click_apply:
  assumes "event ''button'' = Some 3"
  shows "\<exists>k. (displayed w = horizontal_icon cfg \<longrightarrow> k = horizontal_rotation cfg) \<and>
              (displayed w \<noteq> horizontal_icon cfg \<longrightarrow> k = vertical_rotation cfg) \<and>
              (displayed w = [] \<and> horizontal_icon cfg \<noteq> [] \<longrightarrow> k = vertical_rotation cfg) \<and>
              (displayed w = [] \<and> horizontal_icon cfg = [] \<longrightarrow> k = horizontal_rotation cfg) \<and>
              (\<forall>s. screen cfg = Some s \<and> s \<noteq> [] \<longrightarrow>
                 on_click cfg t event w =
                   (Inr (), w\<lparr>issued := issued w @ [rotate_cmd k s]\<rparr>)) \<and>
              (screen cfg = None \<or> screen cfg = Some [] \<longrightarrow>
                 on_click cfg t event w =
                   (Inr (), w\<lparr>issued := issued w @ list_cmd #
                                         map (rotate_cmd k) (fst (get_all_outputs t w))\<rparr>))"
proof -
  define k where
    "k = (if displayed w = horizontal_icon cfg then horizontal_rotation cfg
          else vertical_rotation cfg)"
  have one: "\<forall>s. screen cfg = Some s \<and> s \<noteq> [] \<longrightarrow>
               on_click cfg t event w = (Inr (), w\<lparr>issued := issued w @ [rotate_cmd k s]\<rparr>)"
    using assms by (simp add: on_click_def apply_rotation_screen k_def)
  have every: "screen cfg = None \<or> screen cfg = Some [] \<longrightarrow>
               on_click cfg t event w =
                 (Inr (), w\<lparr>issued := issued w @ list_cmd #
                                       map (rotate_cmd k) (fst (get_all_outputs t w))\<rparr>)"
    using assms by (simp add: on_click_def apply_rotation_all get_all_outputs_eq k_def)
  have "(displayed w = horizontal_icon cfg \<longrightarrow> k = horizontal_rotation cfg) \<and>
        (displayed w \<noteq> horizontal_icon cfg \<longrightarrow> k = vertical_rotation cfg) \<and>
        (displayed w = [] \<and> horizontal_icon cfg \<noteq> [] \<longrightarrow> k = vertical_rotation cfg) \<and>
        (displayed w = [] \<and> horizontal_icon cfg = [] \<longrightarrow> k = horizontal_rotation cfg)"
    by (auto simp: k_def)
  with one every show ?thesis by blast
qed

theorem on_click_apply_witness:
  "[''button'' \<mapsto> (3::int)] ''button'' = Some 3 \<and>
   screen vga1_config = Some ''VGA1'' \<and> ''VGA1'' \<noteq> [] \<and>
   displayed (init\<lparr>displayed := ''H''\<rparr>) = horizontal_icon vga1_config \<and>
   on_click vga1_config edp1_and_vga1 [''button'' \<mapsto> 3] (init\<lparr>displayed := ''H''\<rparr>) =
     (Inr (), \<lparr>displayed = ''H'', issued = [''xrandr --output VGA1 --rotate normal'']\<rparr>) \<and>
   screen default_config = None \<and>
   displayed init = [] \<and> horizontal_icon default_config \<noteq> [] \<and>
   fst (get_all_outputs edp1_and_hdmi1 init) = [''eDP1'', ''HDMI1''] \<and>
   on_click default_config edp1_and_hdmi1 [''button'' \<mapsto> 3] init =
     (Inr (), \<lparr>displayed = [], issued = [list_cmd, ''xrandr --output eDP1 --rotate left'',
                                           ''xrandr --output HDMI1 --rotate left'']\<rparr>)"
proof -
  have h: "[''button'' \<mapsto> (3::int)] ''button'' = Some 3" by simp
  have a: "screen vga1_config = Some ''VGA1''" by code_simp
  have a': "displayed (init\<lparr>displayed := ''H''\<rparr>) = horizontal_icon vga1_config" by code_simp
  have b: "screen default_config = None" by code_simp
  have b': "displayed init = []" "horizontal_icon default_config \<noteq> []" by code_simp+
  have c: "fst (get_all_outputs edp1_and_hdmi1 init) = [''eDP1'', ''HDMI1'']" by code_simp
  have hr: "horizontal_rotation vga1_config = ''normal''" by code_simp
  have vr: "vertical_rotation default_config = ''left''" by code_simp
  have one:
    "on_click vga1_config edp1_and_vga1 [''button'' \<mapsto> 3] (init\<lparr>displayed := ''H''\<rparr>) =
       (Inr (), \<lparr>displayed = ''H'', issued = [''xrandr --output VGA1 --rotate normal'']\<rparr>)"
    using on_click_apply [where event = "[''button'' \<mapsto> 3]" and cfg = vga1_config
      and t = edp1_and_vga1 and w = "init\<lparr>displayed := ''H''\<rparr>", OF h] a a' hr
    by (auto simp: init_def rotate_cmd_def)
  have every:
    "on_click default_config edp1_and_hdmi1 [''button'' \<mapsto> 3] init =
       (Inr (), \<lparr>displayed = [], issued = [list_cmd, ''xrandr --output eDP1 --rotate left'',
                                             ''xrandr --output HDMI1 --rotate left'']\<rparr>)"
    using on_click_apply [where event = "[''button'' \<mapsto> 3]" and cfg = default_config
      and t = edp1_and_hdmi1 and w = init, OF h] b b' c vr
    by (auto simp: init_def rotate_cmd_def)
  from h a a' b b' c one every show ?thesis by simp
qed

subsection \<open>Rendering with the configured screen disconnected\<close>

text \<open>
  C2, as claimed, fails: with screen \<^verbatim>\<open>VGA1\<close>, the outputs \<^verbatim>\<open>[eDP1]\<close>, nothing
  hidden, \<^verbatim>\<open>displayed\<close> empty and the default icons, the text is claimed to show the
  fallback glyph \<^verbatim>\<open>?\<close>. The render call first fills the empty \<^verbatim>\<open>displayed\<close> from
  \<^verbatim>\<open>_get_current_rotation_icon\<close>, which always returns one of the two icons, so
  \<^verbatim>\<open>self.displayed or '?'\<close> is the icon. Here, with the template
  \<^verbatim>\<open>{icon} {screen}\<close> and a tool that prints nothing for \<^verbatim>\<open>VGA1\<close>, the text is
  \<^verbatim>\<open>V VGA1\<close>; the colour is the degraded one, as claimed.
\<close>

theorem render_disconnected_shown_counterexample:
  "screen vga1_config = Some ''VGA1'' \<and> \<not> hide_if_disconnected vga1_config \<and>
   fst (get_all_outputs only_edp1 init) = [''eDP1''] \<and> displayed init = [] \<and>
   fst (xrandr_rotate vga1_config only_edp1 host_colors init) =
     Inr \<lparr>full_text = ''V VGA1'', color = Some ''#FFFF00''\<rparr> \<and>
   CHR ''?'' \<notin> set ''V VGA1''"
  by code_simp

text \<open>
  C2, amended: in that scenario, whatever the tool answers to the rotation query and
  whatever the template, the render call substitutes for \<^verbatim>\<open>{icon}\<close> a rotation icon
  (\<^verbatim>\<open>H\<close> if the descriptor reported for \<^verbatim>\<open>VGA1\<close> is horizontal, else \<^verbatim>\<open>V\<close>; never
  \<^verbatim>\<open>?\<close>) and for \<^verbatim>\<open>{screen}\<close> the label \<^verbatim>\<open>VGA1\<close>, stores that icon in
  \<^verbatim>\<open>displayed\<close>, and sets the colour to the host's degraded colour.
\<close>

theorem render_disconnected_shown:
  assumes "screen cfg = Some ''VGA1''" and "\<not> hide_if_disconnected cfg"
    and "horizontal_icon cfg = ''H''" and "vertical_icon cfg = ''V''"
    and "displayed w = []"
    and "fst (get_all_outputs t w) = [''eDP1'']"
    and "i3s_config ''color_degraded'' = Some c"
  shows "fst (xrandr_rotate cfg t i3s_config w) =
           (case py_format (format cfg)
                   [(''icon'', if is_horizontal (t (Suc (length (issued w))) (rotation_cmd ''VGA1''))
                               then ''H'' else ''V''),
                    (''screen'', ''VGA1'')] of
              Inl e \<Rightarrow> Inl e
            | Inr s \<Rightarrow> Inr \<lparr>full_text = s, color = Some c\<rparr>) \<and>
         displayed (snd (xrandr_rotate cfg t i3s_config w)) =
           (if is_horizontal (t (Suc (length (issued w))) (rotation_cmd ''VGA1''))
            then ''H'' else ''V'')"
proof -
  define icon where
    "icon = (if is_horizontal (t (Suc (length (issued w))) (rotation_cmd ''VGA1''))
             then ''H'' else ''V'')"
  define wa where "wa = w\<lparr>issued := issued w @ [list_cmd]\<rparr>"
  define wb where "wb = wa\<lparr>issued := issued wa @ [rotation_cmd ''VGA1'']\<rparr>"
  define wc where "wc = wb\<lparr>displayed := icon\<rparr>"
  have ne: "icon \<noteq> []" by (simp add: icon_def)
  from assms(6) have g: "get_all_outputs t w = ([''eDP1''], wa)"
    by (simp add: get_all_outputs_eq wa_def)
  have disc: "selected_screen_disconnected cfg [''eDP1'']"
    using assms(1) by (simp add: selected_screen_disconnected_def)
  have sf: "screen_or_first cfg [''eDP1''] = Inr ''VGA1''"
    using assms(1) by (simp add: screen_or_first_def)
  have lab: "screen_label cfg [''eDP1''] = Inr ''VGA1''"
    using sf by (simp add: screen_label_def)
  have ic: "get_current_rotation_icon cfg t [''eDP1''] wa = (Inr icon, wb)"
    using assms(3,4) by (simp add: icon_eq sf icon_def wa_def wb_def)
  have da: "displayed wa = []" using assms(5) by (simp add: wa_def)
  have dc: "displayed wc = icon" by (simp add: wc_def)
  have rt: "render_text cfg t [''eDP1''] wa =
              (py_format (format cfg) [(''icon'', icon), (''screen'', ''VGA1'')], wc)"
    using assms(2) ne by (simp add: render_text_def da ic lab wc_def)
  have rc: "render_color cfg t i3s_config [''eDP1''] wc = (Inr (Some c), wc)"
    using assms(2,7) disc by (simp add: render_color_def)
  have "fst (xrandr_rotate cfg t i3s_config w) =
           (case py_format (format cfg) [(''icon'', icon), (''screen'', ''VGA1'')] of
              Inl e \<Rightarrow> Inl e
            | Inr s \<Rightarrow> Inr \<lparr>full_text = s, color = Some c\<rparr>)"
    by (simp add: xrandr_rotate_fst g rt rc split: sum.splits)
  moreover have "displayed (snd (xrandr_rotate cfg t i3s_config w)) = icon"
    by (simp add: xrandr_rotate_displayed g rt dc)
  ultimately show ?thesis unfolding icon_def by simp
qed

theorem render_disconnected_shown_witness:
  "screen vga1_config = Some ''VGA1'' \<and> \<not> hide_if_disconnected vga1_config \<and>
   horizontal_icon vga1_config = ''H'' \<and> vertical_icon vga1_config = ''V'' \<and>
   displayed init = [] \<and> fst (get_all_outputs edp1_others_unplugged init) = [''eDP1''] \<and>
   host_colors ''color_degraded'' = Some ''#FFFF00'' \<and>
   fst (xrandr_rotate vga1_config edp1_others_unplugged host_colors init) =
     Inr \<lparr>full_text = ''V VGA1'', color = Some ''#FFFF00''\<rparr> \<and>
   displayed (snd (xrandr_rotate vga1_config edp1_others_unplugged host_colors init)) = ''V''"
proof -
  have a: "screen vga1_config = Some ''VGA1''" by code_simp
  have b: "\<not> hide_if_disconnected vga1_config" by code_simp
  have c: "horizontal_icon vga1_config = ''H''" by code_simp
  have d: "vertical_icon vga1_config = ''V''" by code_simp
  have e: "displayed init = []" by code_simp
  have f: "fst (get_all_outputs edp1_others_unplugged init) = [''eDP1'']" by code_simp
  have g: "host_colors ''color_degraded'' = Some ''#FFFF00''" by code_simp
  have h: "\<not> is_horizontal (edp1_others_unplugged (Suc (length (issued init)))
                     (rotation_cmd ''VGA1''))"
    by code_simp
  have i: "py_format (format vga1_config) [(''icon'', ''V''), (''screen'', ''VGA1'')] =
             Inr ''V VGA1''"
    by code_simp
  from render_disconnected_shown [where cfg = vga1_config and t = edp1_others_unplugged
      and w = init and ?i3s_config = host_colors and c = "''#FFFF00''", OF a b c d e f g]
    h i a b c d e f g
  show ?thesis by simp
qed

subsection \<open>The invariant of the displayed icon\<close>

text \<open>
  C6. \<^verbatim>\<open>displayed\<close> is empty at construction, and after any sequence of clicks and
  render calls, against any behaviour of the tool and whether or not a call raised,
  it is the empty string, the horizontal icon or the vertical icon.
\<close>

theorem displayed_invariant:
  "displayed (run cfg []) = [] \<and>
   (displayed (run cfg calls) = [] \<or> displayed (run cfg calls) = horizontal_icon cfg \<or>
    displayed (run cfg calls) = vertical_icon cfg)"
proof -
  have "inv_displayed cfg init" by (simp add: inv_displayed_def init_def)
  then have "inv_displayed cfg (run cfg calls)" unfolding run_def by (rule foldl_step_inv)
  then show ?thesis by (simp add: inv_displayed_def init_def run_def)
qed

theorem displayed_invariant_witness:
  "displayed (run default_config
     [Render edp1_and_hdmi1 host_colors, Click edp1_and_hdmi1 [''button'' \<mapsto> 1],
      Click edp1_and_hdmi1 [''button'' \<mapsto> 3], Render edp1_and_hdmi1 host_colors]) = ''V''"
proof -
  have "displayed (run default_config
     [Render edp1_and_hdmi1 host_colors, Click edp1_and_hdmi1 [''button'' \<mapsto> 1],
      Click edp1_and_hdmi1 [''button'' \<mapsto> 3], Render edp1_and_hdmi1 host_colors]) \<noteq> ''H''"
    by code_simp
  moreover have "displayed (run default_config
     [Render edp1_and_hdmi1 host_colors, Click edp1_and_hdmi1 [''button'' \<mapsto> 1],
      Click edp1_and_hdmi1 [''button'' \<mapsto> 3], Render edp1_and_hdmi1 host_colors]) \<noteq> []"
    by code_simp
  ultimately show ?thesis
    using displayed_invariant [of default_config
     "[Render edp1_and_hdmi1 host_colors, Click edp1_and_hdmi1 [''button'' \<mapsto> 1],
       Click edp1_and_hdmi1 [''button'' \<mapsto> 3], Render edp1_and_hdmi1 host_colors]"]
    by (simp add: default_config_def)
qed

subsection \<open>Rendering twice\<close>

text \<open>
  C7. Against a tool that answers each command the same way every time, a second
  render call right after a first one has the same outcome as the first: the same
  text and the same colour entry (present with the same value, or absent), or the
  same exception.
\<close>

theorem render_idempotent:
  "fst (xrandr_rotate cfg (steady f) i3s (snd (xrandr_rotate cfg (steady f) i3s w))) =
   fst (xrandr_rotate cfg (steady f) i3s w)"
proof -
  let ?outs = "py_split (f list_cmd)"
  let ?wa = "snd (get_all_outputs (steady f) w)"
  let ?wb = "snd (render_text cfg (steady f) ?outs ?wa)"
  let ?v = "snd (xrandr_rotate cfg (steady f) i3s w)"
  let ?va = "snd (get_all_outputs (steady f) ?v)"
  let ?vb = "snd (render_text cfg (steady f) ?outs ?va)"
  have dva: "displayed ?va = displayed ?wb"
    by (simp only: displayed_get_all_outputs xrandr_rotate_displayed fst_get_all_outputs_steady)
  have same_text:
    "fst (render_text cfg (steady f) ?outs ?va) = fst (render_text cfg (steady f) ?outs ?wa)"
    using render_text_steady [OF dva, of cfg f ?outs] render_text_again [of cfg f ?outs ?wa]
    by simp
  have "displayed ?vb = displayed ?wb"
    using render_text_steady [OF dva, of cfg f ?outs] render_text_again [of cfg f ?outs ?wa]
    by simp
  then have col: "fst (render_color cfg (steady f) i3s ?outs ?vb) =
                  fst (render_color cfg (steady f) i3s ?outs ?wb)"
    by (rule render_color_steady)
  have "fst (xrandr_rotate cfg (steady f) i3s ?v) =
        (case fst (render_text cfg (steady f) ?outs ?va) of
           Inl e \<Rightarrow> Inl e
         | Inr text \<Rightarrow>
             (case fst (render_color cfg (steady f) i3s ?outs ?vb) of
                Inl e \<Rightarrow> Inl e
              | Inr col \<Rightarrow> Inr \<lparr>full_text = text, color = col\<rparr>))"
    by (simp only: xrandr_rotate_fst [of cfg "steady f" i3s ?v] fst_get_all_outputs_steady)
  also have "\<dots> = fst (xrandr_rotate cfg (steady f) i3s w)"
    by (simp only: xrandr_rotate_fst [of cfg "steady f" i3s w] fst_get_all_outputs_steady
          same_text col)
  finally show ?thesis .
qed

theorem render_idempotent_witness:
  "fst (xrandr_rotate default_config (steady edp1_normal) host_colors init) =
     Inr \<lparr>full_text = ''H'', color = Some ''#00FF00''\<rparr> \<and>
   fst (xrandr_rotate default_config (steady edp1_normal) host_colors
          (snd (xrandr_rotate default_config (steady edp1_normal) host_colors init))) =
     Inr \<lparr>full_text = ''H'', color = Some ''#00FF00''\<rparr>"
proof -
  have "fst (xrandr_rotate default_config (steady edp1_normal) host_colors init) =
          Inr \<lparr>full_text = ''H'', color = Some ''#00FF00''\<rparr>"
    by code_simp
  then show ?thesis
    using render_idempotent [of default_config edp1_normal host_colors init] by simp
qed

end
